theory Spec2Isabelle
  imports Main "HOL-Library.Multiset"
begin

section \<open>MatLayer: material layer stack and its node graph\<close>

text \<open>
  A shallow embedding of \<^verbatim>\<open>core/material_layers.py\<close>. The add-on keeps a flat list of
  layer slots (\<^verbatim>\<open>scene.matlayer_layers\<close>), a selection record
  (\<^verbatim>\<open>scene.matlayer_layer_stack\<close>) and, inside the active material, a node tree whose
  layer nodes are named by the decimal rendering of their layer index.
\<close>

subsection \<open>Python strings: \<^verbatim>\<open>str\<close> of an integer, \<^verbatim>\<open>upper\<close>, \<^verbatim>\<open>format\<close>\<close>

definition digit_char :: "nat \<Rightarrow> char" where
  "digit_char d = char_of (48 + d)"

fun str_nat :: "nat \<Rightarrow> string" where
  "str_nat n = (if n < 10 then [digit_char n] else str_nat (n div 10) @ [digit_char (n mod 10)])"

declare str_nat.simps [simp del]

text \<open>Python's \<^verbatim>\<open>str(i)\<close> for an integer: decimal digits, with a minus sign when negative.\<close>

definition str_int :: "int \<Rightarrow> string" where
  "str_int i = (if i < 0 then CHR ''-'' # str_nat (nat (- i)) else str_nat (nat i))"

text \<open>\<^verbatim>\<open>s.upper()\<close> on the ASCII letters.\<close>

definition upper_char :: "char \<Rightarrow> char" where
  "upper_char c =
     (if (97::nat) \<le> of_char c \<and> of_char c \<le> (122::nat) then char_of (of_char c - (32::nat)) else c)"

definition upper :: "string \<Rightarrow> string" where
  "upper s = map upper_char s"

text \<open>
  \<^verbatim>\<open>def format_layer_group_node_name(active_material_name, layer_index):
      return "{0}_{1}".format(active_material_name, layer_index)\<close>
\<close>

definition format_layer_group_node_name :: "string \<Rightarrow> int \<Rightarrow> string" where
  "format_layer_group_node_name active_material_name layer_index =
     active_material_name @ ''_'' @ str_int layer_index"

subsection \<open>Facts about the decimal rendering\<close>

lemma digit_char_inj: "a < 10 \<Longrightarrow> b < 10 \<Longrightarrow> digit_char a = digit_char b \<Longrightarrow> a = b"
proof -
  assume a: "a < 10" and b: "b < 10" and e: "digit_char a = digit_char b"
  have "(of_char (digit_char a) :: nat) = of_char (digit_char b)" using e by simp
  moreover have "(of_char (digit_char a) :: nat) = 48 + a"
    using a by (simp add: digit_char_def)
  moreover have "(of_char (digit_char b) :: nat) = 48 + b"
    using b by (simp add: digit_char_def)
  ultimately show "a = b" by simp
qed

lemma digit_char_numerals:
  "digit_char 0 = CHR ''0''" "digit_char 1 = CHR ''1''" "digit_char 2 = CHR ''2''"
  "digit_char 3 = CHR ''3''" "digit_char 4 = CHR ''4''" "digit_char 5 = CHR ''5''"
  "digit_char 6 = CHR ''6''" "digit_char 7 = CHR ''7''" "digit_char 8 = CHR ''8''"
  "digit_char 9 = CHR ''9''"
  by (simp_all add: digit_char_def char_of_def bit_0)

lemma digit_char_code: "d < 10 \<Longrightarrow> (of_char (digit_char d) :: nat) = 48 + d"
  by (simp add: digit_char_def)

lemma digit_char_not_underscore: "d < 10 \<Longrightarrow> digit_char d \<noteq> CHR ''_''"
proof
  assume d: "d < 10" and e: "digit_char d = CHR ''_''"
  have "(of_char (digit_char d) :: nat) = 95" using e by simp
  with digit_char_code [OF d] show False using d by simp
qed

lemma digit_char_not_minus: "d < 10 \<Longrightarrow> digit_char d \<noteq> CHR ''-''"
proof
  assume d: "d < 10" and e: "digit_char d = CHR ''-''"
  have "(of_char (digit_char d) :: nat) = 45" using e by simp
  with digit_char_code [OF d] show False using d by simp
qed

lemma str_nat_not_Nil: "str_nat n \<noteq> []"
  by (subst str_nat.simps) simp

lemma str_nat_digits: "c \<in> set (str_nat n) \<Longrightarrow> \<exists>d<10. c = digit_char d"
proof (induction n rule: str_nat.induct)
  case (1 n)
  show ?case
  proof (cases "n < 10")
    case True
    with "1.prems" show ?thesis by (subst (asm) str_nat.simps) auto
  next
    case False
    from "1.prems" have "c \<in> set (str_nat (n div 10)) \<or> c = digit_char (n mod 10)"
      using False by (subst (asm) str_nat.simps) auto
    then show ?thesis
    proof
      assume "c \<in> set (str_nat (n div 10))"
      with "1.IH" False show ?thesis by simp
    next
      assume "c = digit_char (n mod 10)"
      moreover have "n mod 10 < 10" by simp
      ultimately show ?thesis by blast
    qed
  qed
qed

lemma str_nat_inj: "str_nat a = str_nat b \<Longrightarrow> a = b"
proof (induction a arbitrary: b rule: str_nat.induct)
  case (1 a)
  show ?case
  proof (cases "a < 10")
    case True
    have sa: "str_nat a = [digit_char a]" using True by (subst str_nat.simps) simp
    show ?thesis
    proof (cases "b < 10")
      case True
      have "str_nat b = [digit_char b]" using True by (subst str_nat.simps) simp
      with sa "1.prems" have "digit_char a = digit_char b" by simp
      with \<open>a < 10\<close> True show ?thesis by (rule digit_char_inj)
    next
      case False
      have "str_nat b = str_nat (b div 10) @ [digit_char (b mod 10)]"
        using False by (subst str_nat.simps) simp
      with sa "1.prems" have "str_nat (b div 10) = []" by simp
      with str_nat_not_Nil show ?thesis by blast
    qed
  next
    case False
    have sa: "str_nat a = str_nat (a div 10) @ [digit_char (a mod 10)]"
      using False by (subst str_nat.simps) simp
    show ?thesis
    proof (cases "b < 10")
      case True
      have "str_nat b = [digit_char b]" using True by (subst str_nat.simps) simp
      with sa "1.prems" have "str_nat (a div 10) = []" by simp
      with str_nat_not_Nil show ?thesis by blast
    next
      case bf: False
      have sb: "str_nat b = str_nat (b div 10) @ [digit_char (b mod 10)]"
        using bf by (subst str_nat.simps) simp
      from sa sb "1.prems" have q: "str_nat (a div 10) = str_nat (b div 10)"
        and r: "digit_char (a mod 10) = digit_char (b mod 10)" by simp_all
      from "1.IH" [OF False q] have "a div 10 = b div 10" .
      moreover have "a mod 10 = b mod 10"
        by (rule digit_char_inj [OF _ _ r]) simp_all
      ultimately show ?thesis by (metis div_mult_mod_eq)
    qed
  qed
qed

lemma str_int_inj: "str_int i = str_int j \<Longrightarrow> i = j"
proof -
  assume e: "str_int i = str_int j"
  have hd_nat: "\<And>n. hd (str_nat n) \<noteq> CHR ''-''"
  proof -
    fix n
    have "hd (str_nat n) \<in> set (str_nat n)" using str_nat_not_Nil by simp
    then obtain d where "d < 10" "hd (str_nat n) = digit_char d"
      using str_nat_digits by blast
    then show "hd (str_nat n) \<noteq> CHR ''-''" using digit_char_not_minus by simp
  qed
  show "i = j"
  proof (cases "i < 0")
    case True
    show ?thesis
    proof (cases "j < 0")
      case jt: True
      from e True jt have "str_nat (nat (- i)) = str_nat (nat (- j))"
        by (simp add: str_int_def)
      then have "nat (- i) = nat (- j)" by (rule str_nat_inj)
      with True jt show ?thesis by simp
    next
      case False
      from e True False have "CHR ''-'' # str_nat (nat (- i)) = str_nat (nat j)"
        by (simp add: str_int_def)
      then have "hd (str_nat (nat j)) = CHR ''-''" by (metis list.sel(1))
      with hd_nat show ?thesis by blast
    qed
  next
    case False
    show ?thesis
    proof (cases "j < 0")
      case True
      from e True False have "str_nat (nat i) = CHR ''-'' # str_nat (nat (- j))"
        by (simp add: str_int_def)
      then have "hd (str_nat (nat i)) = CHR ''-''" by (metis list.sel(1))
      with hd_nat show ?thesis by blast
    next
      case jf: False
      from e False jf have "str_nat (nat i) = str_nat (nat j)"
        by (simp add: str_int_def)
      then have "nat i = nat j" by (rule str_nat_inj)
      with False jf show ?thesis by simp
    qed
  qed
qed

lemma str_int_no_underscore: "CHR ''_'' \<notin> set (str_int i)"
proof
  assume u: "CHR ''_'' \<in> set (str_int i)"
  have "\<And>n. CHR ''_'' \<notin> set (str_nat n)"
  proof
    fix n
    assume "CHR ''_'' \<in> set (str_nat n)"
    then obtain d where "d < 10" "CHR ''_'' = digit_char d"
      using str_nat_digits by blast
    then show False using digit_char_not_underscore by metis
  qed
  with u show False by (auto simp: str_int_def split: if_splits)
qed

text \<open>
  A string that ends in an underscore followed by underscore-free text splits in only
  one way: the text after the last underscore is determined.
\<close>

lemma split_last_underscore:
  assumes "a @ ''_'' @ x = b @ ''_'' @ y"
    and "CHR ''_'' \<notin> set x" and "CHR ''_'' \<notin> set y"
  shows "a = b \<and> x = y"
proof -
  have tw: "\<And>u v. CHR ''_'' \<notin> set v \<Longrightarrow> takeWhile (\<lambda>c. c \<noteq> CHR ''_'') (rev (u @ ''_'' @ v)) = rev v"
    by (auto simp: takeWhile_tail)
  have "takeWhile (\<lambda>c. c \<noteq> CHR ''_'') (rev (a @ ''_'' @ x)) =
        takeWhile (\<lambda>c. c \<noteq> CHR ''_'') (rev (b @ ''_'' @ y))"
    using assms(1) by (rule arg_cong)
  then have "rev x = rev y"
    by (simp only: tw [OF assms(2)] tw [OF assms(3)])
  then have "x = y" by simp
  with assms(1) show ?thesis by simp
qed

section \<open>Data model\<close>

text \<open>
  Exceptions of the source are values. \<open>AttributeError\<close> is the attribute access on
  \<^verbatim>\<open>None\<close> (for instance \<^verbatim>\<open>bpy.context.active_object.active_material\<close> with no active
  object), \<open>IndexError\<close> the subscript out of range, \<open>TypeError\<close> the host's refusal of
  \<^verbatim>\<open>None\<close> where a socket is expected, and \<open>PollFailed\<close> the host's refusal to run an
  operator whose \<^verbatim>\<open>poll\<close> is false.
\<close>

datatype error = AttributeError | IndexError | TypeError | PollFailed

text \<open>\<^verbatim>\<open>class MATLAYER_layers(PropertyGroup)\<close>: the built-in \<^verbatim>\<open>name\<close> and \<^verbatim>\<open>hidden\<close>.\<close>

record layer_slot =
  slot_name :: string
  hidden :: bool

datatype material_channel =
  COLOR | SUBSURFACE | SUBSURFACE_COLOR | METALLIC | SPECULAR | ROUGHNESS | EMISSION | NORMAL | HEIGHT

datatype layer_tab = LAYER_TAB_MATERIAL | LAYER_TAB_MASK

datatype material_tab = MATERIAL_TAB_MATERIAL | MATERIAL_TAB_PROJECTION | MATERIAL_TAB_FILTERS

datatype mask_tab = MASK_TAB_FILTERS | MASK_TAB_PROJECTION

text \<open>
  \<^verbatim>\<open>class MATLAYER_layer_stack(PropertyGroup)\<close>. The class declares the property
  \<^verbatim>\<open>selected_layer_index\<close>; the functions below assign to an attribute \<^verbatim>\<open>layer_index\<close> of
  the same object, which the class does not declare. The record keeps the two apart:
  \<open>layer_index_attr\<close> is the value of that assignment, \<open>None\<close> before it; no function
  of the module reads it, and the host does not keep it with the document.
\<close>

record layer_stack =
  selected_layer_index :: int
  material_channel_preview :: bool
  node_default_width :: int
  node_spacing :: int
  selected_material_channel :: material_channel
  layer_property_tab :: layer_tab
  material_property_tab :: material_tab
  mask_property_tab :: mask_tab
  layer_index_attr :: "int option"

text \<open>
  A node of a node tree, with the names of its sockets. For a group node,
  \<open>group_tree\<close> is the name of the node group it instantiates.
\<close>

record node =
  node_name :: string
  label :: string
  width :: int
  location :: "int \<times> int"
  group_tree :: "string option"
  outputs :: "string list"
  inputs :: "string list"

record link =
  from_node :: string
  from_socket :: string
  to_node :: string
  to_socket :: string

record node_tree =
  nodes :: "node list"
  links :: "link list"

text \<open>An entry of \<^verbatim>\<open>bpy.data.node_groups\<close>.\<close>

record node_group =
  group_name :: string
  group_nodes :: "node list"
  interface_inputs :: "string list"
  interface_outputs :: "string list"

record material =
  material_name :: string
  material_node_tree :: "node_tree option"

record object =
  object_name :: string
  object_type :: string
  material_slots :: "material option list"
  active_material_index :: nat

text \<open>
  The part of the host document the module reads and writes. \<open>random_draws\<close> is the
  sequence of values the calls of \<^verbatim>\<open>random.randrange(0, 999999)\<close> are going to return;
  \<open>reports\<close> collects the messages shown to the user.
\<close>

record state =
  active_object :: "object option"
  matlayer_layers :: "layer_slot list"
  matlayer_layer_stack :: layer_stack
  node_groups :: "node_group list"
  random_draws :: "int list"
  reports :: "(string \<times> string) list"

text \<open>
  The functions of \<^verbatim>\<open>utilities/blender_addon_utils\<close> are not part of the sources at
  hand; the operator takes them as parameters. \<open>append_default_node_groups\<close> acts on
  \<^verbatim>\<open>bpy.data.node_groups\<close>; \<open>append_material\<close> and \<open>append_node_group\<close> return the
  appended datablock, or \<open>None\<close> when the host has none of that name.
\<close>

record utils =
  append_default_node_groups :: "node_group list \<Rightarrow> node_group list"
  append_material :: "string \<Rightarrow> material option"
  append_node_group :: "string \<Rightarrow> node_group option"

text \<open>
  Modelled from the spec: \<^verbatim>\<open>blender_addon_utils.log_status\<close> is missing from the
  sources; the spec has the failure "reported to the user as a message". The model
  appends the severity and the message to \<open>reports\<close>.
\<close>

definition log_status :: "string \<Rightarrow> string \<Rightarrow> state \<Rightarrow> state" where
  "log_status message severity s = s\<lparr>reports := reports s @ [(severity, message)]\<rparr>"

section \<open>Host collections\<close>

text \<open>
  The host's property collections, as the module uses them. \<^verbatim>\<open>add()\<close> appends an item
  with the default values and \<^verbatim>\<open>find(key)\<close> is the index of the first item of that name,
  or \<open>-1\<close>. \<^verbatim>\<open>remove(index)\<close> and \<^verbatim>\<open>move(from, to)\<close> act on indices inside the
  collection and leave it as it is otherwise.
\<close>

definition layers_add :: "layer_slot list \<Rightarrow> layer_slot list" where
  "layers_add layers = layers @ [\<lparr>slot_name = [], hidden = False\<rparr>]"

fun layers_find_from :: "layer_slot list \<Rightarrow> string \<Rightarrow> int \<Rightarrow> int" where
  "layers_find_from [] key i = - 1"
| "layers_find_from (x # xs) key i = (if slot_name x = key then i else layers_find_from xs key (i + 1))"

definition layers_find :: "layer_slot list \<Rightarrow> string \<Rightarrow> int" where
  "layers_find layers key = layers_find_from layers key 0"

definition layers_remove :: "'a list \<Rightarrow> int \<Rightarrow> 'a list" where
  "layers_remove layers index =
     (if 0 \<le> index \<and> index < int (length layers)
      then take (nat index) layers @ drop (nat index + 1) layers
      else layers)"

definition layers_move :: "'a list \<Rightarrow> int \<Rightarrow> int \<Rightarrow> 'a list" where
  "layers_move layers from_index to_index =
     (if 0 \<le> from_index \<and> from_index < int (length layers) \<and>
         0 \<le> to_index \<and> to_index < int (length layers) \<and> from_index \<noteq> to_index
      then (let x = layers ! nat from_index;
                rest = take (nat from_index) layers @ drop (nat from_index + 1) layers
            in take (nat to_index) rest @ [x] @ drop (nat to_index) rest)
      else layers)"

text \<open>\<^verbatim>\<open>nodes.get(name)\<close>: the first node of that name, or \<^verbatim>\<open>None\<close>.\<close>

definition nodes_get :: "node list \<Rightarrow> string \<Rightarrow> node option" where
  "nodes_get ns key = find (\<lambda>n. node_name n = key) ns"

definition node_groups_get :: "node_group list \<Rightarrow> string \<Rightarrow> node_group option" where
  "node_groups_get gs key = find (\<lambda>g. group_name g = key) gs"

text \<open>\<^verbatim>\<open>node.outputs.get(name)\<close>: the socket, given by its node and its name.\<close>

definition outputs_get :: "node \<Rightarrow> string \<Rightarrow> (string \<times> string) option" where
  "outputs_get n key = (if key \<in> set (outputs n) then Some (node_name n, key) else None)"

definition inputs_get :: "node \<Rightarrow> string \<Rightarrow> (string \<times> string) option" where
  "inputs_get n key = (if key \<in> set (inputs n) then Some (node_name n, key) else None)"

text \<open>
  \<^verbatim>\<open>links.new(output, input)\<close>: the host refuses \<^verbatim>\<open>None\<close>; an input socket holds one
  link, so a link that already ends there is replaced.
\<close>

definition links_new ::
  "(string \<times> string) option \<Rightarrow> (string \<times> string) option \<Rightarrow> node_tree \<Rightarrow> error + node_tree" where
  "links_new out_socket in_socket t =
     (case out_socket of
        None \<Rightarrow> Inl TypeError
      | Some (fn, fs) \<Rightarrow>
          (case in_socket of
             None \<Rightarrow> Inl TypeError
           | Some (tn, ts) \<Rightarrow>
               Inr (t\<lparr>links := filter (\<lambda>l. \<not> (to_node l = tn \<and> to_socket l = ts)) (links t)
                                @ [\<lparr>from_node = fn, from_socket = fs, to_node = tn, to_socket = ts\<rparr>]\<rparr>)))"

text \<open>\<^verbatim>\<open>object.active_material\<close>: the material of the active slot, \<^verbatim>\<open>None\<close> without one.\<close>

definition active_material :: "object \<Rightarrow> material option" where
  "active_material ob =
     (if active_material_index ob < length (material_slots ob)
      then material_slots ob ! active_material_index ob
      else None)"

text \<open>Writing through \<^verbatim>\<open>bpy.context.active_object.active_material\<close>.\<close>

definition set_active_material :: "material \<Rightarrow> state \<Rightarrow> state" where
  "set_active_material m s =
     (case active_object s of
        None \<Rightarrow> s
      | Some ob \<Rightarrow>
          s\<lparr>active_object :=
               Some (ob\<lparr>material_slots := (material_slots ob)[active_material_index ob := Some m]\<rparr>)\<rparr>)"

text \<open>
  The access path \<^verbatim>\<open>bpy.context.active_object.active_material.node_tree\<close>, each step of
  which fails on \<^verbatim>\<open>None\<close>.
\<close>

definition active_node_tree :: "state \<Rightarrow> error + (material \<times> node_tree)" where
  "active_node_tree s =
     (case active_object s of
        None \<Rightarrow> Inl AttributeError
      | Some ob \<Rightarrow>
          (case active_material ob of
             None \<Rightarrow> Inl AttributeError
           | Some m \<Rightarrow>
               (case material_node_tree m of
                  None \<Rightarrow> Inl AttributeError
                | Some t \<Rightarrow> Inr (m, t))))"

section \<open>The functions of the module\<close>

subsection \<open>\<^verbatim>\<open>read_total_layers\<close>\<close>

text \<open>
  \<^verbatim>\<open>layer_count = 1
  while active_material.node_tree.nodes.get(str(layer_count)):
      layer_count += 1
  return layer_count\<close>
  The loop ends because the tree has finitely many nodes and \<^verbatim>\<open>str\<close> is injective.
\<close>

function count_layers_from :: "node list \<Rightarrow> int \<Rightarrow> int" where
  "count_layers_from ns layer_count =
     (if nodes_get ns (str_int layer_count) \<noteq> None
      then count_layers_from ns (layer_count + 1)
      else layer_count)"
  by pat_completeness auto
termination
proof (relation "measure (\<lambda>(ns, c). card {k. c \<le> k \<and> str_int k \<in> node_name ` set ns})")
  show "wf (measure (\<lambda>(ns, c). card {k. c \<le> k \<and> str_int k \<in> node_name ` set ns}))"
    by simp
next
  fix ns :: "node list" and layer_count :: int
  assume hit: "nodes_get ns (str_int layer_count) \<noteq> None"
  let ?S = "\<lambda>c. {k. c \<le> k \<and> str_int k \<in> node_name ` set ns}"
  have fin: "finite (?S layer_count)"
  proof -
    have "finite (str_int -` (node_name ` set ns))"
      by (rule finite_vimageI) (auto intro: injI str_int_inj)
    moreover have "?S layer_count \<subseteq> str_int -` (node_name ` set ns)" by auto
    ultimately show ?thesis by (rule rev_finite_subset)
  qed
  from hit obtain n where "find (\<lambda>n. node_name n = str_int layer_count) ns = Some n"
    by (auto simp: nodes_get_def)
  then have "n \<in> set ns" "node_name n = str_int layer_count"
    by (auto simp: find_Some_iff)
  then have mem: "layer_count \<in> ?S layer_count" by force
  have "?S (layer_count + 1) \<subseteq> ?S layer_count" by auto
  moreover have "layer_count \<notin> ?S (layer_count + 1)" by simp
  ultimately have "?S (layer_count + 1) \<subset> ?S layer_count" using mem by blast
  with fin have "card (?S (layer_count + 1)) < card (?S layer_count)"
    by (rule psubset_card_mono)
  then show "((ns, layer_count + 1), (ns, layer_count))
      \<in> measure (\<lambda>(ns, c). card {k. c \<le> k \<and> str_int k \<in> node_name ` set ns})"
    by simp
qed

declare count_layers_from.simps [simp del]

definition read_total_layers :: "state \<Rightarrow> error + int" where
  "read_total_layers s =
     (case active_node_tree s of
        Inl e \<Rightarrow> Inl e
      | Inr (m, t) \<Rightarrow> Inr (count_layers_from (nodes t) 1))"

subsection \<open>Node lookup\<close>

text \<open>
  \<^verbatim>\<open>def get_layer_group_node(layer_index):
      return format_layer_group_node_name(bpy.context.active_object.active_material.name, layer_index)\<close>
\<close>

definition get_layer_group_node :: "state \<Rightarrow> int \<Rightarrow> error + string" where
  "get_layer_group_node s layer_index =
     (case active_object s of
        None \<Rightarrow> Inl AttributeError
      | Some ob \<Rightarrow>
          (case active_material ob of
             None \<Rightarrow> Inl AttributeError
           | Some m \<Rightarrow> Inr (format_layer_group_node_name (material_name m) layer_index)))"

text \<open>\<^verbatim>\<open>bpy.data.node_groups.get(group).nodes.get(key)\<close>: the first lookup may give \<^verbatim>\<open>None\<close>.\<close>

definition group_nodes_get :: "node_group list \<Rightarrow> string \<Rightarrow> string \<Rightarrow> error + node option" where
  "group_nodes_get gs layer_group_node_name key =
     (case node_groups_get gs layer_group_node_name of
        None \<Rightarrow> Inl AttributeError
      | Some g \<Rightarrow> Inr (nodes_get (group_nodes g) key))"

text \<open>
  \<^verbatim>\<open>def get_material_layer_node(layer_node_name, layer_index, material_channel_name='Color')\<close>:
  without an active material, and for a \<^verbatim>\<open>layer_node_name\<close> that no \<^verbatim>\<open>case\<close> matches, the
  function falls off its end and returns \<^verbatim>\<open>None\<close>.
\<close>

definition get_material_layer_node :: "state \<Rightarrow> string \<Rightarrow> int \<Rightarrow> string \<Rightarrow> error + node option" where
  "get_material_layer_node s layer_node_name layer_index material_channel_name =
     (case active_object s of
        None \<Rightarrow> Inl AttributeError
      | Some ob \<Rightarrow>
          (case active_material ob of
             None \<Rightarrow> Inr None
           | Some m \<Rightarrow>
               (let layer_group_node_name = format_layer_group_node_name (material_name m) layer_index in
                if layer_node_name = ''LAYER'' then
                  (case material_node_tree m of
                     None \<Rightarrow> Inl AttributeError
                   | Some t \<Rightarrow> Inr (nodes_get (nodes t) (str_int layer_index)))
                else if layer_node_name = ''PROJECTION'' then
                  group_nodes_get (node_groups s) layer_group_node_name ''PROJECTION''
                else if layer_node_name = ''MIX'' then
                  group_nodes_get (node_groups s) layer_group_node_name (upper material_channel_name @ ''_MIX'')
                else if layer_node_name = ''OPACITY'' then
                  group_nodes_get (node_groups s) layer_group_node_name (upper material_channel_name @ ''_OPACITY'')
                else if layer_node_name = ''VALUE'' then
                  group_nodes_get (node_groups s) layer_group_node_name (upper material_channel_name @ ''_VALUE'')
                else if layer_node_name = ''OUTPUT'' then
                  group_nodes_get (node_groups s) layer_group_node_name ''Group Output''
                else if layer_node_name = ''INPUT'' then
                  group_nodes_get (node_groups s) layer_group_node_name ''Group Input''
                else Inr None)))"

subsection \<open>\<^verbatim>\<open>add_material_layer_slot\<close>\<close>

text \<open>
  \<^verbatim>\<open>unique_random_slot_id = str(random.randrange(0, 999999))
  while layers.find(unique_random_slot_id) != -1:
      unique_random_slot_id = str(random.randrange(0, 999999))\<close>
  The loop takes its values from \<open>random_draws\<close>; the result is \<open>None\<close> when the loop
  asks for a value beyond the ones given, and otherwise the identifier with the draws
  that are left.
\<close>

fun retry_slot_id :: "layer_slot list \<Rightarrow> string \<Rightarrow> int list \<Rightarrow> (string \<times> int list) option" where
  "retry_slot_id layers unique_random_slot_id [] =
     (if layers_find layers unique_random_slot_id \<noteq> - 1 then None
      else Some (unique_random_slot_id, []))"
| "retry_slot_id layers unique_random_slot_id (r # rs) =
     (if layers_find layers unique_random_slot_id \<noteq> - 1 then retry_slot_id layers (str_int r) rs
      else Some (unique_random_slot_id, r # rs))"

definition unique_random_slot_id :: "layer_slot list \<Rightarrow> int list \<Rightarrow> (string \<times> int list) option" where
  "unique_random_slot_id layers draws =
     (case draws of [] \<Rightarrow> None | r # rs \<Rightarrow> retry_slot_id layers (str_int r) rs)"

text \<open>
  The function appends the slot, names it, moves it and then assigns
  \<^verbatim>\<open>layer_stack.layer_index = move_to_index\<close>; what it returns is
  \<^verbatim>\<open>bpy.context.scene.matlayer_layer_stack.selected_layer_index\<close>. Its local variable
  \<^verbatim>\<open>selected_layer_index\<close> is assigned once more in each branch and not read again.
\<close>

definition add_material_layer_slot :: "state \<Rightarrow> (int \<times> state) option" where
  "add_material_layer_slot s =
     (let layer_stack = matlayer_layer_stack s;
          selected = selected_layer_index layer_stack;
          layers = layers_add (matlayer_layers s)
      in case unique_random_slot_id layers (random_draws s) of
           None \<Rightarrow> None
         | Some (unique_id, draws) \<Rightarrow>
             (let named = layers[length layers - 1 := (last layers)\<lparr>slot_name := unique_id\<rparr>];
                  move_index = int (length named) - 1;
                  move_to_index =
                    (if selected < 0 then 0 else max 0 (min (selected + 1) (int (length named) - 1)));
                  layer_stack' = layer_stack\<lparr>layer_index_attr := Some move_to_index\<rparr>;
                  s' = s\<lparr>matlayer_layers := layers_move named move_index move_to_index,
                         matlayer_layer_stack := layer_stack',
                         random_draws := draws\<rparr>
              in Some (selected_layer_index (matlayer_layer_stack s'), s')))"

subsection \<open>\<^verbatim>\<open>organize_layer_group_nodes\<close> and \<^verbatim>\<open>connect_layer_group_nodes\<close>\<close>

fun update_first :: "('a \<Rightarrow> bool) \<Rightarrow> ('a \<Rightarrow> 'a) \<Rightarrow> 'a list \<Rightarrow> 'a list" where
  "update_first p f [] = []"
| "update_first p f (x # xs) = (if p x then f x # xs else x # update_first p f xs)"

text \<open>
  \<^verbatim>\<open>for i in range(0, layer_count):
      layer_group_node = active_material.node_tree.nodes.get(str(i))
      if layer_group_node: ... width = 300; location = (position_x, 0); position_x -= 500\<close>
\<close>

fun organize_loop :: "int list \<Rightarrow> int \<Rightarrow> node list \<Rightarrow> node list" where
  "organize_loop [] position_x ns = ns"
| "organize_loop (i # is) position_x ns =
     (case nodes_get ns (str_int i) of
        None \<Rightarrow> organize_loop is position_x ns
      | Some layer_group_node \<Rightarrow>
          organize_loop is (position_x - 500)
            (update_first (\<lambda>n. node_name n = str_int i)
               (\<lambda>n. n\<lparr>width := 300, location := (position_x, 0)\<rparr>) ns))"

definition organize_layer_group_nodes :: "state \<Rightarrow> (error + unit) \<times> state" where
  "organize_layer_group_nodes s =
     (case read_total_layers s of
        Inl e \<Rightarrow> (Inl e, s)
      | Inr layer_count \<Rightarrow>
          (case active_node_tree s of
             Inl e \<Rightarrow> (Inl e, s)
           | Inr (m, t) \<Rightarrow>
               (Inr (),
                set_active_material
                  (m\<lparr>material_node_tree :=
                       Some (t\<lparr>nodes := organize_loop [0..layer_count - 1] (- 500) (nodes t)\<rparr>)\<rparr>) s)))"

text \<open>
  The nine \<^verbatim>\<open>links.new(layer_node.outputs.get(a), target.inputs.get(b))\<close> statements, in
  order. Each fails when \<^verbatim>\<open>layer_node\<close> or its target is \<^verbatim>\<open>None\<close>; the links made by
  the statements before it stay in the tree.
\<close>

fun connect_links ::
  "node option \<Rightarrow> (string \<times> node option \<times> string) list \<Rightarrow> node_tree \<Rightarrow> error option \<times> node_tree" where
  "connect_links layer_node [] t = (None, t)"
| "connect_links layer_node ((out_name, target, in_name) # rest) t =
     (case layer_node of
        None \<Rightarrow> (Some AttributeError, t)
      | Some ln \<Rightarrow>
          (case target of
             None \<Rightarrow> (Some AttributeError, t)
           | Some tn \<Rightarrow>
               (case links_new (outputs_get ln out_name) (inputs_get tn in_name) t of
                  Inl e \<Rightarrow> (Some e, t)
                | Inr t' \<Rightarrow> connect_links layer_node rest t')))"

definition connect_layer_group_nodes :: "state \<Rightarrow> (error + unit) \<times> state" where
  "connect_layer_group_nodes s =
     (case read_total_layers s of
        Inl e \<Rightarrow> (Inl e, s)
      | Inr layer_count \<Rightarrow>
          (case active_node_tree s of
             Inl e \<Rightarrow> (Inl e, s)
           | Inr (m, t) \<Rightarrow>
               (let principled_bsdf = nodes_get (nodes t) ''MATLAYER_BSDF'';
                    normal_and_height_mix = nodes_get (nodes t) ''NORMAL_HEIGHT_MIX''
                in case get_material_layer_node s ''LAYER'' 0 ''Color'' of
                     Inl e \<Rightarrow> (Inl e, s)
                   | Inr layer_node \<Rightarrow>
                       (case connect_links layer_node
                               [(''Color'', principled_bsdf, ''Base Color''),
                                (''Subsurface'', principled_bsdf, ''Subsurface''),
                                (''Metallic'', principled_bsdf, ''Metallic''),
                                (''Specular'', principled_bsdf, ''Specular''),
                                (''Roughness'', principled_bsdf, ''Roughness''),
                                (''Emission'', principled_bsdf, ''Emission''),
                                (''Alpha'', principled_bsdf, ''Alpha''),
                                (''Normal'', normal_and_height_mix, ''Normal''),
                                (''Height'', normal_and_height_mix, ''Height'')] t of
                          (err, t') \<Rightarrow>
                            ((case err of None \<Rightarrow> Inr () | Some e \<Rightarrow> Inl e),
                             set_active_material (m\<lparr>material_node_tree := Some t'\<rparr>) s)))))"

section \<open>The operators\<close>

datatype operator =
  ADD_MATERIAL_LAYER
  | ADD_PAINT_MATERIAL_LAYER
  | ADD_DECAL_MATERIAL_LAYER
  | DELETE_LAYER
  | DUPLICATE_LAYER
  | MOVE_MATERIAL_LAYER string

text \<open>
  Every operator has the same \<^verbatim>\<open>poll\<close>: \<^verbatim>\<open>return context.active_object\<close>
  ("Disable when there is no active object").
\<close>

definition poll :: "state \<Rightarrow> bool" where
  "poll s = (active_object s \<noteq> None)"

text \<open>
  Lines 120 to 129 of \<^verbatim>\<open>MATLAYER_OT_add_material_layer.execute\<close>: an object without
  material slots gets a new slot with the default material, an empty active slot gets
  the default material; the material takes the object's name.
\<close>

definition ensure_active_material :: "utils \<Rightarrow> object \<Rightarrow> error + object" where
  "ensure_active_material u ob =
     (if length (material_slots ob) = 0 then
        (case append_material u ''DefaultMatLayerMaterial'' of
           None \<Rightarrow> Inl AttributeError
         | Some new_material \<Rightarrow>
             Inr (ob\<lparr>material_slots :=
                       material_slots ob @ [Some (new_material\<lparr>material_name := object_name ob\<rparr>)],
                     active_material_index := 0\<rparr>))
      else if \<not> active_material_index ob < length (material_slots ob) then Inl IndexError
      else if material_slots ob ! active_material_index ob = None then
        (case append_material u ''DefaultMatLayerMaterial'' of
           None \<Rightarrow> Inl AttributeError
         | Some new_material \<Rightarrow>
             Inr (ob\<lparr>material_slots :=
                       (material_slots ob)[active_material_index ob :=
                          Some (new_material\<lparr>material_name := object_name ob\<rparr>)]\<rparr>))
      else Inr ob)"

text \<open>
  Lines 134 to 140: the layer's node group is appended and renamed, and a group node
  for it is created in the active material's tree, named by the index that
  \<^verbatim>\<open>add_material_layer_slot\<close> returned. The host's renaming of a datablock or node whose
  name is taken is not modelled: lookups return the first entry of a name.
\<close>

definition add_layer_group_node :: "utils \<Rightarrow> int \<Rightarrow> state \<Rightarrow> (error + unit) \<times> state" where
  "add_layer_group_node u new_layer_slot_index s =
     (case active_object s of
        None \<Rightarrow> (Inl AttributeError, s)
      | Some ob \<Rightarrow>
          (case active_material ob of
             None \<Rightarrow> (Inl AttributeError, s)
           | Some m \<Rightarrow>
               (case append_node_group u ''ML_DefaultLayer'' of
                  None \<Rightarrow> (Inl AttributeError, s)
                | Some g \<Rightarrow>
                    (let default_layer_node_group =
                           g\<lparr>group_name := material_name m @ ''_'' @ str_int new_layer_slot_index\<rparr>;
                         s1 = s\<lparr>node_groups := node_groups s @ [default_layer_node_group]\<rparr>
                     in case material_node_tree m of
                          None \<Rightarrow> (Inl AttributeError, s1)
                        | Some t \<Rightarrow>
                            (let new_layer_group_node =
                                   \<lparr>node_name = str_int new_layer_slot_index,
                                    label = ''Layer '' @ str_int new_layer_slot_index,
                                    width = 140,
                                    location = (0, 0),
                                    group_tree = Some (group_name default_layer_node_group),
                                    outputs = interface_outputs default_layer_node_group,
                                    inputs = interface_inputs default_layer_node_group\<rparr>
                             in (Inr (),
                                 set_active_material
                                   (m\<lparr>material_node_tree :=
                                        Some (t\<lparr>nodes := nodes t @ [new_layer_group_node]\<rparr>)\<rparr>) s1))))))"

text \<open>
  \<^verbatim>\<open>MATLAYER_OT_add_material_layer.execute\<close>. The result is \<open>None\<close> when the random
  draws run out inside \<^verbatim>\<open>add_material_layer_slot\<close>; otherwise it is the error raised or
  \<^verbatim>\<open>{'FINISHED'}\<close>, with the state at that moment.
\<close>

definition add_material_layer_execute :: "utils \<Rightarrow> state \<Rightarrow> ((error + unit) \<times> state) option" where
  "add_material_layer_execute u s =
     (let s1 = s\<lparr>node_groups := append_default_node_groups u (node_groups s)\<rparr> in
      case active_object s1 of
        None \<Rightarrow> Some (Inl AttributeError, s1)
      | Some ob \<Rightarrow>
          if object_type ob \<noteq> ''MESH'' then
            Some (Inr (), log_status ''Selected object must be a mesh to add materials'' ''ERROR'' s1)
          else
            (case ensure_active_material u ob of
               Inl e \<Rightarrow> Some (Inl e, s1)
             | Inr ob' \<Rightarrow>
                 (case add_material_layer_slot (s1\<lparr>active_object := Some ob'\<rparr>) of
                    None \<Rightarrow> None
                  | Some (new_layer_slot_index, s2) \<Rightarrow>
                      (case add_layer_group_node u new_layer_slot_index s2 of
                         (Inl e, s3) \<Rightarrow> Some (Inl e, s3)
                       | (Inr _, s3) \<Rightarrow>
                           (case organize_layer_group_nodes s3 of
                              (Inl e, s4) \<Rightarrow> Some (Inl e, s4)
                            | (Inr _, s4) \<Rightarrow> Some (connect_layer_group_nodes s4))))))"

text \<open>
  \<^verbatim>\<open>MATLAYER_OT_delete_layer.execute\<close>:
  \<^verbatim>\<open>layers.remove(selected_layer_index)
  context.scene.matlayer_layer_stack.layer_index = max(min(selected_layer_index - 1, len(layers) - 1), 0)\<close>
\<close>

definition delete_layer_execute :: "state \<Rightarrow> (error + unit) \<times> state" where
  "delete_layer_execute s =
     (let selected = selected_layer_index (matlayer_layer_stack s);
          layers = layers_remove (matlayer_layers s) selected
      in (Inr (),
          s\<lparr>matlayer_layers := layers,
            matlayer_layer_stack :=
              (matlayer_layer_stack s)\<lparr>layer_index_attr :=
                 Some (max (min (selected - 1) (int (length layers) - 1)) 0)\<rparr>\<rparr>))"

text \<open>
  The \<^verbatim>\<open>execute\<close> of the paint, decal, duplicate and move operators is the single
  statement \<^verbatim>\<open>return {'FINISHED'}\<close>.
\<close>

fun execute :: "utils \<Rightarrow> operator \<Rightarrow> state \<Rightarrow> ((error + unit) \<times> state) option" where
  "execute u ADD_MATERIAL_LAYER s = add_material_layer_execute u s"
| "execute u ADD_PAINT_MATERIAL_LAYER s = Some (Inr (), s)"
| "execute u ADD_DECAL_MATERIAL_LAYER s = Some (Inr (), s)"
| "execute u DELETE_LAYER s = Some (delete_layer_execute s)"
| "execute u DUPLICATE_LAYER s = Some (Inr (), s)"
| "execute u (MOVE_MATERIAL_LAYER direction) s = Some (Inr (), s)"

text \<open>The host runs \<^verbatim>\<open>execute\<close> only when \<^verbatim>\<open>poll\<close> holds.\<close>

definition run_operator :: "utils \<Rightarrow> operator \<Rightarrow> state \<Rightarrow> ((error + unit) \<times> state) option" where
  "run_operator u op s = (if poll s then execute u op s else Some (Inl PollFailed, s))"

section \<open>Sequences of insertions\<close>




section \<open>Example documents\<close>

text \<open>The layer stack with the default values of its properties.\<close>

definition default_layer_stack :: layer_stack where
  "default_layer_stack =
     \<lparr>selected_layer_index = - 1, material_channel_preview = False, node_default_width = 250,
      node_spacing = 80, selected_material_channel = COLOR,
      layer_property_tab = LAYER_TAB_MATERIAL, material_property_tab = MATERIAL_TAB_MATERIAL,
      mask_property_tab = MASK_TAB_FILTERS, layer_index_attr = None\<rparr>"

definition slot :: "string \<Rightarrow> layer_slot" where
  "slot key = \<lparr>slot_name = key, hidden = False\<rparr>"

text \<open>A layer group node with the nine channel outputs, and the two shading nodes.\<close>

definition layer_group_node :: "string \<Rightarrow> node" where
  "layer_group_node key =
     \<lparr>node_name = key, label = ''Layer '' @ key, width = 300, location = (- 500, 0),
      group_tree = Some (''Cube_'' @ key),
      outputs = [''Color'', ''Subsurface'', ''Metallic'', ''Specular'', ''Roughness'',
                 ''Emission'', ''Alpha'', ''Normal'', ''Height''],
      inputs = []\<rparr>"

definition bsdf_node :: node where
  "bsdf_node =
     \<lparr>node_name = ''MATLAYER_BSDF'', label = [], width = 240, location = (0, 0),
      group_tree = None, outputs = [''BSDF''],
      inputs = [''Base Color'', ''Subsurface'', ''Metallic'', ''Specular'', ''Roughness'',
                ''Emission'', ''Alpha'', ''Normal'']\<rparr>"

definition normal_height_mix_node :: node where
  "normal_height_mix_node =
     \<lparr>node_name = ''NORMAL_HEIGHT_MIX'', label = [], width = 140, location = (- 200, 0),
      group_tree = Some ''ML_NormalHeightMix'', outputs = [''Normal''],
      inputs = [''Normal'', ''Height'']\<rparr>"

text \<open>An object of a given type whose only material has the given nodes.\<close>

definition object_with_nodes :: "string \<Rightarrow> node list \<Rightarrow> object" where
  "object_with_nodes type ns =
     \<lparr>object_name = ''Cube'', object_type = type,
      material_slots = [Some \<lparr>material_name = ''Cube'',
                               material_node_tree = Some \<lparr>nodes = ns, links = []\<rparr>\<rparr>],
      active_material_index = 0\<rparr>"

definition document :: "object option \<Rightarrow> layer_slot list \<Rightarrow> int \<Rightarrow> int list \<Rightarrow> state" where
  "document ob layers selected draws =
     \<lparr>active_object = ob, matlayer_layers = layers,
      matlayer_layer_stack = default_layer_stack\<lparr>selected_layer_index := selected\<rparr>,
      node_groups = [], random_draws = draws, reports = []\<rparr>"

text \<open>Utilities of a host that has neither templates nor default node groups.\<close>

definition no_templates :: utils where
  "no_templates =
     \<lparr>append_default_node_groups = (\<lambda>gs. gs), append_material = (\<lambda>key. None),
      append_node_group = (\<lambda>key. None)\<rparr>"

text \<open>
  A mesh whose material holds the two shading nodes and the layer nodes \<^verbatim>\<open>0\<close> to
  \<^verbatim>\<open>n - 1\<close> for the slots given; \<open>empty_document\<close> has no layer yet and no selection.
\<close>

definition empty_document :: state where
  "empty_document =
     document (Some (object_with_nodes ''MESH'' [bsdf_node, normal_height_mix_node])) [] (- 1) [5]"

definition one_layer_document :: state where
  "one_layer_document =
     document (Some (object_with_nodes ''MESH''
                  [layer_group_node ''0'', bsdf_node, normal_height_mix_node]))
       [slot ''421337''] 0 []"

definition three_layer_document :: "int \<Rightarrow> state" where
  "three_layer_document selected =
     document (Some (object_with_nodes ''MESH''
                  [layer_group_node ''0'', layer_group_node ''1'', layer_group_node ''2'',
                   bsdf_node, normal_height_mix_node]))
       [slot ''17'', slot ''421337'', slot ''99''] selected []"

text \<open>
  A curve object with one slot in the store; a mesh whose material lacks the
  \<^verbatim>\<open>NORMAL_HEIGHT_MIX\<close> node; and the links of the active material's tree.
\<close>

definition curve_document :: state where
  "curve_document = document (Some (object_with_nodes ''CURVE'' [])) [slot ''421337''] 0 []"

definition no_mix_document :: state where
  "no_mix_document =
     document (Some (object_with_nodes ''MESH'' [layer_group_node ''0'', bsdf_node]))
       [slot ''421337''] 0 []"

definition active_links :: "state \<Rightarrow> link list" where
  "active_links s = (case active_node_tree s of Inl e \<Rightarrow> [] | Inr (m, t) \<Rightarrow> links t)"

text \<open>
  Utilities of a host whose library holds the default layer group: appending the default
  node groups adds that group once.
\<close>

definition default_layer_group :: node_group where
  "default_layer_group =
     \<lparr>group_name = ''ML_DefaultLayer'', group_nodes = [],
      interface_inputs = [],
      interface_outputs = [''Color'', ''Subsurface'', ''Metallic'', ''Specular'', ''Roughness'',
                           ''Emission'', ''Alpha'', ''Normal'', ''Height'']\<rparr>"

definition template_host :: utils where
  "template_host =
     \<lparr>append_default_node_groups =
        (\<lambda>gs. if node_groups_get gs ''ML_DefaultLayer'' = None then gs @ [default_layer_group] else gs),
      append_material = (\<lambda>key. None),
      append_node_group = (\<lambda>key. if key = ''ML_DefaultLayer'' then Some default_layer_group else None)\<rparr>"

section \<open>Facts about the slot store\<close>

lemma layers_find_from_range: "layers_find_from xs key i = - 1 \<or> i \<le> layers_find_from xs key i"
  by (induction xs arbitrary: i) (auto, force)










section \<open>Facts about the node tree\<close>

lemma set_active_material_same:
  assumes "active_node_tree s = Inr (m, t)"
  shows "set_active_material (m\<lparr>material_node_tree := Some t\<rparr>) s = s"
proof -
  from assms obtain ob where ob: "active_object s = Some ob" and am: "active_material ob = Some m"
    and mt: "material_node_tree m = Some t"
    by (auto simp: active_node_tree_def split: option.splits)
  from mt have m: "m\<lparr>material_node_tree := Some t\<rparr> = m" by simp
  from am have "material_slots ob ! active_material_index ob = Some m"
    by (auto simp: active_material_def split: if_splits)
  then have "(material_slots ob)[active_material_index ob := Some m] = material_slots ob"
    by (metis list_update_id)
  then show ?thesis using ob by (simp add: set_active_material_def m)
qed

lemma str_int_zero: "str_int 0 = ''0''"
  by (simp add: str_int_def str_nat.simps digit_char_numerals)

lemma connect_links_first_fail:
  "layer_node = None \<or> target = None \<Longrightarrow>
     connect_links layer_node ((a, target, b) # rest) t = (Some AttributeError, t)"
  by (auto split: option.splits)

section \<open>Claims\<close>

subsection \<open>Claim C1\<close>

text \<open>
  C1. After every add, remove, move or duplicate operation on a consistent material, the
  layer count read from the graph by \<^verbatim>\<open>read_total_layers\<close> equals the length of
  \<^verbatim>\<open>matlayer_layers\<close>. The delete operator breaks this: on a document with one slot and
  the layer node \<^verbatim>\<open>0\<close>, where both counts are 1, it removes the slot and leaves the node
  tree as it is, so the graph still counts 1 while the slot store is empty.
\<close>

theorem delete_layer_graph_count_differs:
  "read_total_layers one_layer_document = Inr 1 \<and>
   length (matlayer_layers one_layer_document) = 1 \<and>
   run_operator no_templates DELETE_LAYER one_layer_document
     = Some (Inr (), snd (delete_layer_execute one_layer_document)) \<and>
   read_total_layers (snd (delete_layer_execute one_layer_document)) = Inr 1 \<and>
   length (matlayer_layers (snd (delete_layer_execute one_layer_document))) = 0"
  by code_simp

subsection \<open>Claim C2\<close>

text \<open>
  C2. With no prior selection, \<^verbatim>\<open>add_material_layer_slot\<close> moves the new slot to
  position 0, sets the selected index to 0 and returns 0. On the empty store with
  selected index \<open>-1\<close> the code puts the new slot at position 0, but it assigns the
  position to \<^verbatim>\<open>layer_index\<close>: \<^verbatim>\<open>selected_layer_index\<close> stays \<open>-1\<close>, and \<open>-1\<close> is what
  the function returns.
\<close>

theorem add_slot_no_selection_returns_minus_one:
  "map_option fst (add_material_layer_slot empty_document) = Some (- 1) \<and>
   map_option (\<lambda>r. map slot_name (matlayer_layers (snd r))) (add_material_layer_slot empty_document)
     = Some [''5''] \<and>
   map_option (\<lambda>r. selected_layer_index (matlayer_layer_stack (snd r)))
       (add_material_layer_slot empty_document) = Some (- 1)"
  by code_simp

subsection \<open>Claim C3\<close>

text \<open>
  C3. Removing the slot at the selected index \<open>i\<close> sets the selected index to
  \<open>max (min (i - 1) (count - 1)) 0\<close>, so that it stays inside the store. On three slots
  with selected index 2 the delete operator removes the third slot and assigns the new
  index to \<^verbatim>\<open>layer_index\<close>; \<^verbatim>\<open>selected_layer_index\<close> stays 2, outside the two slots that
  are left.
\<close>

theorem delete_layer_selection_not_updated:
  "map slot_name (matlayer_layers (snd (delete_layer_execute (three_layer_document 2))))
     = [''17'', ''421337''] \<and>
   selected_layer_index (matlayer_layer_stack (snd (delete_layer_execute (three_layer_document 2)))) = 2"
  by code_simp

subsection \<open>Claim C4\<close>

text \<open>
  C4. \<^verbatim>\<open>read_total_layers\<close> probes the node names \<^verbatim>\<open>0\<close>, \<^verbatim>\<open>1\<close>, ... from index 0 until
  the first miss, so that a tree without integer-named nodes counts 0. The code starts
  at 1: for a tree with no node at all, and for one that holds the two shading nodes
  only, it returns 1.
\<close>

theorem read_total_layers_without_layers_is_one:
  "read_total_layers (document (Some (object_with_nodes ''MESH'' [])) [] (- 1) []) = Inr 1 \<and>
   read_total_layers empty_document = Inr 1"
  by code_simp

subsection \<open>Claim C5\<close>

text \<open>
  C5, as stated: every layer command whose precondition fails (no active object, or an
  object that is not a mesh) reports the failure and changes nothing. The delete
  operator has no check of the object's type: with a curve as the active object and one
  slot in the store, it removes the slot and reports nothing.
\<close>

theorem delete_layer_runs_on_curve:
  "active_object curve_document = Some (object_with_nodes ''CURVE'' []) \<and>
   object_type (object_with_nodes ''CURVE'' []) = ''CURVE'' \<and>
   length (matlayer_layers curve_document) = 1 \<and>
   run_operator no_templates DELETE_LAYER curve_document
     = Some (Inr (), snd (delete_layer_execute curve_document)) \<and>
   matlayer_layers (snd (delete_layer_execute curve_document)) = [] \<and>
   reports (snd (delete_layer_execute curve_document)) = []"
  by code_simp

text \<open>
  C5, amended: every layer command is gated by its \<^verbatim>\<open>poll\<close>: without an active object
  the command does not run and the document is unchanged. The check of the geometry
  type belongs to the add material layer command alone (the delete command has none):
  when the active object is not a mesh, that command reports the failure as an error
  message and leaves the slot store, the selection state and the active object with
  its material's node tree exactly as before.
\<close>

theorem precondition_failure_outcomes:
  "(active_object s = None \<longrightarrow> run_operator u op s = Some (Inl PollFailed, s)) \<and>
   (active_object s = Some ob \<and> object_type ob \<noteq> ''MESH'' \<longrightarrow>
      (\<exists>s'. run_operator u ADD_MATERIAL_LAYER s = Some (Inr (), s') \<and>
            matlayer_layers s' = matlayer_layers s \<and>
            matlayer_layer_stack s' = matlayer_layer_stack s \<and>
            active_object s' = active_object s \<and>
            reports s' = reports s @ [(''ERROR'', ''Selected object must be a mesh to add materials'')]))"
proof (intro conjI impI)
  assume "active_object s = None"
  then show "run_operator u op s = Some (Inl PollFailed, s)"
    by (simp add: run_operator_def poll_def)
next
  assume h: "active_object s = Some ob \<and> object_type ob \<noteq> ''MESH''"
  let ?s' = "log_status ''Selected object must be a mesh to add materials'' ''ERROR''
               (s\<lparr>node_groups := append_default_node_groups u (node_groups s)\<rparr>)"
  from h have "run_operator u ADD_MATERIAL_LAYER s = Some (Inr (), ?s')"
    by (simp add: run_operator_def poll_def add_material_layer_execute_def Let_def)
  moreover have "matlayer_layers ?s' = matlayer_layers s"
    "matlayer_layer_stack ?s' = matlayer_layer_stack s"
    "active_object ?s' = active_object s"
    "reports ?s' = reports s @ [(''ERROR'', ''Selected object must be a mesh to add materials'')]"
    by (simp_all add: log_status_def)
  ultimately show "\<exists>s'. run_operator u ADD_MATERIAL_LAYER s = Some (Inr (), s') \<and>
            matlayer_layers s' = matlayer_layers s \<and>
            matlayer_layer_stack s' = matlayer_layer_stack s \<and>
            active_object s' = active_object s \<and>
            reports s' = reports s @ [(''ERROR'', ''Selected object must be a mesh to add materials'')]"
    by blast
qed

theorem precondition_failure_outcomes_witness:
  "run_operator template_host DELETE_LAYER (document None [slot ''421337''] 0 [])
     = Some (Inl PollFailed, document None [slot ''421337''] 0 []) \<and>
   fst (the (run_operator template_host ADD_MATERIAL_LAYER curve_document)) = Inr () \<and>
   matlayer_layers (snd (the (run_operator template_host ADD_MATERIAL_LAYER curve_document)))
     = [slot ''421337''] \<and>
   matlayer_layer_stack (snd (the (run_operator template_host ADD_MATERIAL_LAYER curve_document)))
     = default_layer_stack\<lparr>selected_layer_index := 0\<rparr> \<and>
   active_object (snd (the (run_operator template_host ADD_MATERIAL_LAYER curve_document)))
     = Some (object_with_nodes ''CURVE'' []) \<and>
   reports (snd (the (run_operator template_host ADD_MATERIAL_LAYER curve_document)))
     = [(''ERROR'', ''Selected object must be a mesh to add materials'')]"
proof -
  have a: "active_object (document None [slot ''421337''] 0 []) = None"
    by (simp add: document_def)
  have b: "active_object curve_document = Some (object_with_nodes ''CURVE'' []) \<and>
           object_type (object_with_nodes ''CURVE'' []) \<noteq> ''MESH''"
    by (simp add: curve_document_def document_def object_with_nodes_def)
  have g: "matlayer_layers curve_document = [slot ''421337'']"
    "matlayer_layer_stack curve_document = default_layer_stack\<lparr>selected_layer_index := 0\<rparr>"
    "reports curve_document = []"
    by (simp_all add: curve_document_def document_def)
  have "run_operator template_host DELETE_LAYER (document None [slot ''421337''] 0 [])
     = Some (Inl PollFailed, document None [slot ''421337''] 0 [])"
    using precondition_failure_outcomes
      [where s = "document None [slot ''421337''] 0 []" and u = template_host and op = DELETE_LAYER] a
    by blast
  moreover obtain s' where
    "run_operator template_host ADD_MATERIAL_LAYER curve_document = Some (Inr (), s')"
    "matlayer_layers s' = matlayer_layers curve_document"
    "matlayer_layer_stack s' = matlayer_layer_stack curve_document"
    "active_object s' = active_object curve_document"
    "reports s' = reports curve_document @ [(''ERROR'', ''Selected object must be a mesh to add materials'')]"
    using precondition_failure_outcomes
      [where s = curve_document and u = template_host and ob = "object_with_nodes ''CURVE'' []"] b
    by blast
  ultimately show ?thesis using b by (simp add: g)
qed

subsection \<open>Claim C6\<close>

text \<open>
  C6, as stated: a synchronizer operation whose node or node-group lookup fails raises a
  distinct inconsistent-graph error and stops before it has changed anything. In a
  material without the layer node \<^verbatim>\<open>0\<close>, \<^verbatim>\<open>get_material_layer_node('LAYER', 0)\<close> returns
  \<^verbatim>\<open>None\<close> and raises nothing; and in a material without the \<^verbatim>\<open>NORMAL_HEIGHT_MIX\<close> node,
  \<^verbatim>\<open>connect_layer_group_nodes\<close> raises only after it has made seven links.
\<close>

theorem missing_layer_node_returns_none:
  "nodes_get [bsdf_node, normal_height_mix_node] ''0'' = None \<and>
   active_node_tree empty_document
     = Inr (\<lparr>material_name = ''Cube'',
              material_node_tree = Some \<lparr>nodes = [bsdf_node, normal_height_mix_node], links = []\<rparr>\<rparr>,
            \<lparr>nodes = [bsdf_node, normal_height_mix_node], links = []\<rparr>) \<and>
   get_material_layer_node empty_document ''LAYER'' 0 ''Color'' = Inr None \<and>
   nodes_get [layer_group_node ''0'', bsdf_node] ''NORMAL_HEIGHT_MIX'' = None \<and>
   active_links no_mix_document = [] \<and>
   fst (connect_layer_group_nodes no_mix_document) = Inl AttributeError \<and>
   length (active_links (snd (connect_layer_group_nodes no_mix_document))) = 7"
  by code_simp

text \<open>
  C6, amended: a failed lookup is signalled by \<^verbatim>\<open>None\<close> or by the \<^verbatim>\<open>AttributeError\<close> of
  using \<^verbatim>\<open>None\<close>, not by an error of its own. With an active material that has a node
  tree, \<^verbatim>\<open>get_material_layer_node\<close> returns \<^verbatim>\<open>None\<close> for the kind \<^verbatim>\<open>LAYER\<close> when the tree
  has no node of that index, and raises \<^verbatim>\<open>AttributeError\<close> for the six other kinds when
  the layer's node group is missing; it only reads. \<^verbatim>\<open>connect_layer_group_nodes\<close> raises
  \<^verbatim>\<open>AttributeError\<close> and leaves the document as it was when the layer node \<^verbatim>\<open>0\<close> or the
  node \<^verbatim>\<open>MATLAYER_BSDF\<close> is missing.
\<close>

theorem failed_lookup_outcomes:
  assumes "active_node_tree s = Inr (m, t)"
  shows "(nodes_get (nodes t) (str_int layer_index) = None \<longrightarrow>
            get_material_layer_node s ''LAYER'' layer_index material_channel_name = Inr None) \<and>
         (layer_node_name \<in> {''PROJECTION'', ''MIX'', ''OPACITY'', ''VALUE'', ''OUTPUT'', ''INPUT''} \<and>
          node_groups_get (node_groups s) (format_layer_group_node_name (material_name m) layer_index) = None \<longrightarrow>
            get_material_layer_node s layer_node_name layer_index material_channel_name = Inl AttributeError) \<and>
         (nodes_get (nodes t) ''0'' = None \<or> nodes_get (nodes t) ''MATLAYER_BSDF'' = None \<longrightarrow>
            connect_layer_group_nodes s = (Inl AttributeError, s))"
proof (intro conjI impI)
  from assms obtain ob where ob: "active_object s = Some ob" and am: "active_material ob = Some m"
    and mt: "material_node_tree m = Some t"
    by (auto simp: active_node_tree_def split: option.splits)
  {
    assume "nodes_get (nodes t) (str_int layer_index) = None"
    then show "get_material_layer_node s ''LAYER'' layer_index material_channel_name = Inr None"
      by (simp add: get_material_layer_node_def ob am mt)
  next
    assume "layer_node_name \<in> {''PROJECTION'', ''MIX'', ''OPACITY'', ''VALUE'', ''OUTPUT'', ''INPUT''} \<and>
      node_groups_get (node_groups s) (format_layer_group_node_name (material_name m) layer_index) = None"
    then show "get_material_layer_node s layer_node_name layer_index material_channel_name = Inl AttributeError"
      by (auto simp: get_material_layer_node_def ob am group_nodes_get_def)
  next
    assume h: "nodes_get (nodes t) ''0'' = None \<or> nodes_get (nodes t) ''MATLAYER_BSDF'' = None"
    have g: "get_material_layer_node s ''LAYER'' 0 ''Color'' = Inr (nodes_get (nodes t) ''0'')"
      by (simp add: get_material_layer_node_def ob am mt str_int_zero)
    have r: "read_total_layers s = Inr (count_layers_from (nodes t) 1)"
      by (simp add: read_total_layers_def assms)
    from h have c: "\<And>a b rest. connect_links (nodes_get (nodes t) ''0'')
          ((a, nodes_get (nodes t) ''MATLAYER_BSDF'', b) # rest) t = (Some AttributeError, t)"
      by (rule connect_links_first_fail)
    show "connect_layer_group_nodes s = (Inl AttributeError, s)"
      unfolding connect_layer_group_nodes_def r assms g Let_def
      by (simp add: c set_active_material_same [OF assms] del: connect_links.simps)
  }
qed


theorem failed_lookup_outcomes_witness:
  "get_material_layer_node empty_document ''LAYER'' 3 ''Color'' = Inr None \<and>
   get_material_layer_node empty_document ''PROJECTION'' 0 ''Color'' = Inl AttributeError \<and>
   connect_layer_group_nodes empty_document = (Inl AttributeError, empty_document)"
proof -
  let ?t = "\<lparr>nodes = [bsdf_node, normal_height_mix_node], links = []\<rparr>"
  let ?m = "\<lparr>material_name = ''Cube'', material_node_tree = Some ?t\<rparr>"
  have a: "active_node_tree empty_document = Inr (?m, ?t)" by code_simp
  have b: "nodes_get (nodes ?t) (str_int 3) = None" by code_simp
  have c: "''PROJECTION'' \<in> {''PROJECTION'', ''MIX'', ''OPACITY'', ''VALUE'', ''OUTPUT'', ''INPUT''} \<and>
           node_groups_get (node_groups empty_document)
             (format_layer_group_node_name (material_name ?m) 0) = None"
    by (simp add: empty_document_def document_def node_groups_get_def)
  have d: "nodes_get (nodes ?t) ''0'' = None \<or> nodes_get (nodes ?t) ''MATLAYER_BSDF'' = None"
    by code_simp
  have "get_material_layer_node empty_document ''LAYER'' 3 ''Color'' = Inr None"
    using failed_lookup_outcomes [OF a, where layer_index = 3 and material_channel_name = "''Color''"] b
    by blast
  moreover have "get_material_layer_node empty_document ''PROJECTION'' 0 ''Color'' = Inl AttributeError"
    using failed_lookup_outcomes [OF a, where layer_index = 0 and material_channel_name = "''Color''"
        and layer_node_name = "''PROJECTION''"] c
    by blast
  moreover have "connect_layer_group_nodes empty_document = (Inl AttributeError, empty_document)"
    using failed_lookup_outcomes [OF a] d by blast
  ultimately show ?thesis by blast
qed

subsection \<open>Claim C7\<close>



subsection \<open>Claim C8\<close>

text \<open>
  C8. The move operator swaps the selected slot with its neighbour in the given
  direction. The operator's \<^verbatim>\<open>execute\<close> returns at once: on three slots with the middle
  one selected, moving up and moving down both leave the document as it was.
\<close>

theorem move_material_layer_changes_nothing:
  "run_operator no_templates (MOVE_MATERIAL_LAYER ''UP'') (three_layer_document 1)
     = Some (Inr (), three_layer_document 1) \<and>
   run_operator no_templates (MOVE_MATERIAL_LAYER ''DOWN'') (three_layer_document 1)
     = Some (Inr (), three_layer_document 1) \<and>
   map slot_name (matlayer_layers (three_layer_document 1)) = [''17'', ''421337'', ''99'']"
  by code_simp

subsection \<open>Claim C9\<close>

text \<open>
  C9. \<^verbatim>\<open>format_layer_group_node_name\<close> (the spec's \<^verbatim>\<open>derive_node_name\<close>) is a function of
  its two arguments that returns the material name, an underscore and the decimal layer
  index; for the material \<^verbatim>\<open>Wood\<close> and index 3 it returns \<^verbatim>\<open>Wood_3\<close>; and two calls
  with indices at least 0 return the same name only for the same material name and the
  same index.
\<close>

theorem derive_node_name_format_injective:
  "format_layer_group_node_name m i = m @ ''_'' @ str_int i \<and>
   format_layer_group_node_name ''Wood'' 3 = ''Wood_3'' \<and>
   (0 \<le> i \<and> 0 \<le> j \<and> format_layer_group_node_name m i = format_layer_group_node_name m' j
      \<longrightarrow> m = m' \<and> i = j)"
proof (intro conjI impI)
  show "format_layer_group_node_name m i = m @ ''_'' @ str_int i"
    by (simp add: format_layer_group_node_name_def)
  show "format_layer_group_node_name ''Wood'' 3 = ''Wood_3''"
    by (simp add: format_layer_group_node_name_def str_int_def str_nat.simps digit_char_numerals)
next
  assume h: "0 \<le> i \<and> 0 \<le> j \<and>
    format_layer_group_node_name m i = format_layer_group_node_name m' j"
  then have "m @ ''_'' @ str_int i = m' @ ''_'' @ str_int j"
    by (simp add: format_layer_group_node_name_def)
  then have "m = m' \<and> str_int i = str_int j"
    by (rule split_last_underscore) (rule str_int_no_underscore)+
  then show "m = m'" and "i = j" using str_int_inj by blast+
qed

theorem derive_node_name_format_injective_witness:
  "format_layer_group_node_name ''Wood'' 3 \<noteq> format_layer_group_node_name ''Wood_1'' 2 \<and>
   format_layer_group_node_name ''Wood_1'' 2 = ''Wood_1_2''"
proof -
  have "(0::int) \<le> 3 \<and> (0::int) \<le> 2" by simp
  moreover have "''Wood'' \<noteq> ''Wood_1''" by simp
  ultimately have "format_layer_group_node_name ''Wood'' 3 \<noteq> format_layer_group_node_name ''Wood_1'' 2"
    using derive_node_name_format_injective [of "''Wood''" 3 2 "''Wood_1''"] by blast
  moreover have "format_layer_group_node_name ''Wood_1'' 2 = ''Wood_1_2''"
    by (simp add: format_layer_group_node_name_def str_int_def str_nat.simps digit_char_numerals)
  ultimately show ?thesis by simp
qed

subsection \<open>Claim C10\<close>

text \<open>
  C10, as stated: every call of \<^verbatim>\<open>get_material_layer_node\<close> without an active material,
  or with a \<^verbatim>\<open>layer_node_name\<close> outside the seven kinds, returns \<^verbatim>\<open>None\<close> and raises
  nothing. Without an active object there is no active material either, and the
  function's first line, \<^verbatim>\<open>bpy.context.active_object.active_material\<close>, raises
  \<^verbatim>\<open>AttributeError\<close>, for a known kind and for an unknown one.
\<close>

theorem get_material_layer_node_without_object_raises:
  "active_object (document None [] (- 1) []) = None \<and>
   get_material_layer_node (document None [] (- 1) []) ''LAYER'' 0 ''Color'' = Inl AttributeError \<and>
   get_material_layer_node (document None [] (- 1) []) ''SHADER'' 0 ''Color'' = Inl AttributeError"
  by code_simp

text \<open>
  C10, amended: when there is an active object, every call of
  \<^verbatim>\<open>get_material_layer_node\<close> for which the object has no active material, or whose
  \<^verbatim>\<open>layer_node_name\<close> is none of the seven kinds, returns \<^verbatim>\<open>None\<close> and raises nothing.
\<close>

theorem get_material_layer_node_nullable:
  assumes "active_object s = Some ob"
    and "active_material ob = None \<or>
         layer_node_name \<notin> {''LAYER'', ''PROJECTION'', ''MIX'', ''OPACITY'', ''VALUE'', ''OUTPUT'', ''INPUT''}"
  shows "get_material_layer_node s layer_node_name layer_index material_channel_name = Inr None"
proof (cases "active_material ob")
  case None
  with assms(1) show ?thesis by (simp add: get_material_layer_node_def)
next
  case (Some m)
  with assms(2) have nin: "layer_node_name \<notin>
      {''LAYER'', ''PROJECTION'', ''MIX'', ''OPACITY'', ''VALUE'', ''OUTPUT'', ''INPUT''}"
    by simp
  have ne: "layer_node_name \<noteq> ''LAYER''" "layer_node_name \<noteq> ''PROJECTION''"
    "layer_node_name \<noteq> ''MIX''" "layer_node_name \<noteq> ''OPACITY''" "layer_node_name \<noteq> ''VALUE''"
    "layer_node_name \<noteq> ''OUTPUT''" "layer_node_name \<noteq> ''INPUT''"
    using nin by simp_all
  show ?thesis
    unfolding get_material_layer_node_def Let_def
    by (simp only: assms(1) Some ne option.case if_False)
qed

theorem get_material_layer_node_nullable_witness:
  "get_material_layer_node (document (Some ((object_with_nodes ''MESH'' [])\<lparr>material_slots := []\<rparr>)) [] (- 1) [])
      ''LAYER'' 0 ''Color'' = Inr None \<and>
   get_material_layer_node one_layer_document ''SHADER'' 0 ''Color'' = Inr None"
proof -
  let ?ob = "(object_with_nodes ''MESH'' [])\<lparr>material_slots := []\<rparr>"
  have a: "active_object (document (Some ?ob) [] (- 1) []) = Some ?ob"
    by (simp add: document_def)
  have b: "active_material ?ob = None" by (simp add: active_material_def)
  have c: "active_object one_layer_document
      = Some (object_with_nodes ''MESH'' [layer_group_node ''0'', bsdf_node, normal_height_mix_node])"
    by (simp add: one_layer_document_def document_def)
  have d: "''SHADER'' \<notin> {''LAYER'', ''PROJECTION'', ''MIX'', ''OPACITY'', ''VALUE'', ''OUTPUT'', ''INPUT''}"
    by simp
  show ?thesis
    using get_material_layer_node_nullable [OF a, of "''LAYER''" 0 "''Color''"] b
      get_material_layer_node_nullable [OF c, of "''SHADER''" 0 "''Color''"] d
    by blast
qed


end
